theory Spec2Isabelle
  imports Complex_Main "HOL-Library.Multiset"
begin

section \<open>Values of the dataframe engine\<close>

text \<open>
  The computations of \<^verbatim>\<open>src/LysioDB/calculations.py\<close> are Polars expressions over
  Float64 columns. A Float64 value is modelled as an exact rational or one of the
  three special values that a division by zero produces; rounding and overflow of
  finite values are not modelled. A null cell is \<open>None\<close> of an option type.
\<close>

datatype fl = Fin rat | PInf | NInf | NaN

datatype error =
  ShapeError | TypeError | NameError | ColumnNotFoundError | InvalidOperationError | ValueError
| DuplicateError

fun fl_neg :: "fl \<Rightarrow> fl" where
  "fl_neg (Fin a) = Fin (- a)"
| "fl_neg PInf = NInf"
| "fl_neg NInf = PInf"
| "fl_neg NaN = NaN"


fun fl_add :: "fl \<Rightarrow> fl \<Rightarrow> fl" where
  "fl_add (Fin a) (Fin b) = Fin (a + b)"
| "fl_add NaN y = NaN"
| "fl_add x NaN = NaN"
| "fl_add PInf NInf = NaN"
| "fl_add NInf PInf = NaN"
| "fl_add PInf y = PInf"
| "fl_add NInf y = NInf"
| "fl_add (Fin a) y = y"

definition fl_sub :: "fl \<Rightarrow> fl \<Rightarrow> fl" where
  "fl_sub x y = fl_add x (fl_neg y)"

text \<open>The sign of a value that is not NaN: \<open>-1\<close>, \<open>0\<close> or \<open>1\<close>.\<close>

fun fl_sgn :: "fl \<Rightarrow> int" where
  "fl_sgn (Fin a) = (if a = 0 then 0 else if 0 < a then 1 else - 1)"
| "fl_sgn PInf = 1"
| "fl_sgn NInf = - 1"
| "fl_sgn NaN = 0"

definition of_sgn :: "int \<Rightarrow> fl" where
  "of_sgn s = (if s = 0 then NaN else if 0 < s then PInf else NInf)"

fun fl_mul :: "fl \<Rightarrow> fl \<Rightarrow> fl" where
  "fl_mul (Fin a) (Fin b) = Fin (a * b)"
| "fl_mul NaN y = NaN"
| "fl_mul x NaN = NaN"
| "fl_mul x y = of_sgn (fl_sgn x * fl_sgn y)"

text \<open>
  IEEE division. A finite value divided by zero is an infinity of the numerator's
  sign (the zero denominators of this program are sums and counts, which are
  \<open>+0.0\<close>), and \<open>0 / 0\<close> is NaN.
\<close>

fun fl_div :: "fl \<Rightarrow> fl \<Rightarrow> fl" where
  "fl_div (Fin a) (Fin b) = (if b \<noteq> 0 then Fin (a / b) else of_sgn (fl_sgn (Fin a)))"
| "fl_div NaN y = NaN"
| "fl_div x NaN = NaN"
| "fl_div (Fin a) y = Fin 0"
| "fl_div x (Fin b) = of_sgn (fl_sgn x * (if 0 \<le> b then 1 else - 1))"
| "fl_div x y = NaN"

text \<open>Comparison \<open><\<close>: false whenever an operand is NaN.\<close>

fun fl_less :: "fl \<Rightarrow> fl \<Rightarrow> bool" where
  "fl_less (Fin a) (Fin b) = (a < b)"
| "fl_less NaN y = False"
| "fl_less x NaN = False"
| "fl_less x NInf = False"
| "fl_less PInf y = False"
| "fl_less x y = True"

definition fl_sum :: "fl list \<Rightarrow> fl" where
  "fl_sum xs = fold (\<lambda>x acc. fl_add acc x) xs (Fin 0)"


definition fill_nan :: "fl \<Rightarrow> fl option \<Rightarrow> fl option" where
  "fill_nan v x = (case x of Some NaN \<Rightarrow> Some v | _ \<Rightarrow> x)"

definition fill_null :: "fl \<Rightarrow> fl option \<Rightarrow> fl option" where
  "fill_null v x = (case x of None \<Rightarrow> Some v | _ \<Rightarrow> x)"

text \<open>Arithmetic on nullable columns: a null operand gives a null result.\<close>

definition lift2 :: "(fl \<Rightarrow> fl \<Rightarrow> fl) \<Rightarrow> fl option \<Rightarrow> fl option \<Rightarrow> fl option" where
  "lift2 f x y = (case (x, y) of (Some a, Some b) \<Rightarrow> Some (f a b) | _ \<Rightarrow> None)"

section \<open>The IPF weight solver: \<^verbatim>\<open>Calculations.weights_test\<close>\<close>

text \<open>
  One calibration dimension pairs a survey column (\<open>mapped\<close>: the category of a row,
  null allowed) with the dictionary \<^verbatim>\<open>target_marginals[col]\<close>: the categories of the
  target table and their summed populations, in the order in which the engine
  returned the groups of the target table.
\<close>

record ('r, 'k) dimension =
  mapped :: "'r \<Rightarrow> 'k option"
  target_marginal :: "('k option \<times> rat) list"

text \<open>
  \<^verbatim>\<open>group_by(...).agg(pl.col("weight").sum())\<close> returns one row per distinct key, in
  an order the engine chooses; \<open>ord\<close> is that choice, a permutation of the distinct
  keys. \<^verbatim>\<open>drop_nans()\<close> then removes the groups whose sum is NaN.
\<close>

definition group_weight :: "('r \<Rightarrow> 'k option) \<Rightarrow> ('r \<times> fl) list \<Rightarrow> 'k option \<Rightarrow> fl" where
  "group_weight key wdf k = fl_sum (map snd (filter (\<lambda>(r, w). key r = k) wdf))"

definition current_marginals ::
  "('k option list \<Rightarrow> 'k option list) \<Rightarrow> ('r \<Rightarrow> 'k option) \<Rightarrow> ('r \<times> fl) list
     \<Rightarrow> ('k option \<times> fl) list" where
  "current_marginals ord key wdf =
     filter (\<lambda>(k, s). s \<noteq> NaN)
       (map (\<lambda>k. (k, group_weight key wdf k)) (ord (remdups (map (\<lambda>(r, w). key r) wdf))))"

text \<open>
  \<^verbatim>\<open>adj_df\<close> is built from three lists side by side: the keys and sums of the current
  marginals and the \<^verbatim>\<open>"population"\<close> list of the target dictionary. The constructor
  raises when the lists differ in length. The factor is
  \<^verbatim>\<open>(target / weight).fill_nan(1.0).fill_null(1.0)\<close>.
\<close>

definition factor :: "rat \<Rightarrow> fl \<Rightarrow> fl option" where
  "factor t s = fill_null (Fin 1) (fill_nan (Fin 1) (Some (fl_div (Fin t) s)))"

definition adj_df ::
  "('k option \<times> fl) list \<Rightarrow> rat list \<Rightarrow> error + ('k option \<times> fl option) list" where
  "adj_df cur population =
     (if length cur \<noteq> length population then Inl ShapeError
      else Inr (map (\<lambda>((k, s), t). (k, factor t s)) (zip cur population)))"

text \<open>
  The left join on the key: a null key matches no row of \<^verbatim>\<open>adj_df\<close>, and a row
  without a match gets a null factor.
\<close>

definition join_factor :: "('k option \<times> fl option) list \<Rightarrow> 'k option \<Rightarrow> fl option" where
  "join_factor adj k =
     (case k of None \<Rightarrow> None
      | Some _ \<Rightarrow> (case map_of adj k of None \<Rightarrow> None | Some f \<Rightarrow> f))"

definition new_weight :: "fl \<Rightarrow> fl option \<Rightarrow> fl" where
  "new_weight w f = (case fill_null (Fin 1) f of Some g \<Rightarrow> fl_mul w g | None \<Rightarrow> w)"

definition sweep ::
  "('k option list \<Rightarrow> 'k option list) \<Rightarrow> ('r, 'k) dimension \<Rightarrow> ('r \<times> fl) list
     \<Rightarrow> error + ('r \<times> fl) list" where
  "sweep ord d wdf =
     (case adj_df (current_marginals ord (mapped d) wdf) (map snd (target_marginal d)) of
        Inl e \<Rightarrow> Inl e
      | Inr adj \<Rightarrow>
          Inr (map (\<lambda>(r, w). (r, new_weight w (join_factor adj (mapped d r)))) wdf))"









section \<open>The dataset, its metadata and the configuration\<close>

text \<open>
  A dataframe is its list of column names and its rows; a row gives the cell of every
  column. Flags and booleans are the numbers 0 and 1. The attributes of
  \<^verbatim>\<open>self.database\<close> that the aggregators read are the fields of \<open>database\<close>: the
  classes behind them (the loader, the metadata extraction and the configuration
  object) are not part of the sources, so they are inputs here. \<open>NAN_VALUES\<close> is the
  dictionary from a missing code to the value that replaces it; \<open>area_map\<close> is the
  dictionary from an area to its questions, in insertion order; \<open>question_map\<close> gives
  a base question the row filter that its stored expression evaluates to;
  \<open>variable_value_labels\<close> gives, for a column, the coded values that carry a label;
  \<open>question_groups\<close> are the groups of the question catalogue in the order in which
  the engine returns them; \<open>question_df\<close> gives, for an answer column, the coded values
  of its \<^verbatim>\<open>value_labels_info\<close>, one entry for a column.
\<close>

type_synonym cell = "fl option"

record frame =
  columns :: "string list"
  rows :: "(string \<Rightarrow> cell) list"

record config =
  WEIGHT_COLUMN :: "string option"
  NAN_VALUES :: "(rat \<times> cell) list"
  area_map :: "(string \<times> string list) list"
  MINIMUM_COUNT :: int
  question_map :: "(string \<times> ((string \<Rightarrow> cell) \<Rightarrow> bool)) list"

text \<open>
  One group of \<^verbatim>\<open>question_df.group_by(["base_question", "question_type"])\<close>: the answer
  columns of the base question and the coded values of \<^verbatim>\<open>value_labels_info\<close> (empty when
  the question has no value labels).
\<close>

record question_group =
  base_question :: string
  question_type :: string
  qcolumns :: "string list"
  value_labels_info :: "rat list"

record database =
  df :: frame
  cfg :: config
  categories :: "string list"
  variable_value_labels :: "(string \<times> rat list) list"
  question_groups :: "question_group list"
  question_df :: "(string \<times> rat list) list"

definition nan_values_list :: "config \<Rightarrow> rat list" where
  "nan_values_list c = map fst (NAN_VALUES c)"

text \<open>\<^verbatim>\<open>pl.col(col).is_in(nan_values_list)\<close>: null on a null cell.\<close>

definition is_in :: "rat list \<Rightarrow> cell \<Rightarrow> bool option" where
  "is_in codes x =
     (case x of None \<Rightarrow> None
      | Some (Fin v) \<Rightarrow> Some (v \<in> set codes)
      | Some _ \<Rightarrow> Some False)"

definition bool_cell :: "bool option \<Rightarrow> cell" where
  "bool_cell b = (case b of None \<Rightarrow> None | Some t \<Rightarrow> Some (Fin (if t then 1 else 0)))"

text \<open>\<^verbatim>\<open>pl.col(col).replace(nan_values_config)\<close>: a cell equal to a key becomes that key's value.\<close>

definition replace_codes :: "(rat \<times> cell) list \<Rightarrow> cell \<Rightarrow> cell" where
  "replace_codes m x =
     (case x of Some (Fin v) \<Rightarrow> (case map_of m v of Some r \<Rightarrow> r | None \<Rightarrow> x)
      | _ \<Rightarrow> x)"

text \<open>
  The cleaning step shared by \<^verbatim>\<open>index\<close> and \<^verbatim>\<open>eni\<close>. The columns it touches are the
  columns of the frame that have value labels of which one is a missing code. Each
  gets a flag column \<^verbatim>\<open>{col}_was_nan_value_code\<close>, computed from the raw cells; then
  the missing codes are replaced. Nothing happens when \<open>NAN_VALUES\<close> is empty.
\<close>

definition has_nan_label :: "database \<Rightarrow> string \<Rightarrow> bool" where
  "has_nan_label db col =
     (case map_of (variable_value_labels db) col of
        None \<Rightarrow> False
      | Some keys \<Rightarrow> list_ex (\<lambda>v. v \<in> set (nan_values_list (cfg db))) keys)"

definition flag_name :: "string \<Rightarrow> string" where
  "flag_name col = col @ ''_was_nan_value_code''"

definition add_columns :: "string list \<Rightarrow> string list \<Rightarrow> string list" where
  "add_columns cols new = cols @ filter (\<lambda>c. c \<notin> set cols) (remdups new)"

definition with_flags :: "rat list \<Rightarrow> string list \<Rightarrow> (string \<Rightarrow> cell) \<Rightarrow> string \<Rightarrow> cell" where
  "with_flags codes flagged r =
     fold (\<lambda>q f. f(flag_name q := bool_cell (is_in codes (r q)))) flagged r"

definition flagged_columns :: "database \<Rightarrow> string list" where
  "flagged_columns db =
     (if nan_values_list (cfg db) = [] then []
      else filter (has_nan_label db) (columns (df db)))"

definition df_clean :: "database \<Rightarrow> frame" where
  "df_clean db =
     (if nan_values_list (cfg db) = [] then df db
      else
        let flagged = flagged_columns db;
            cols1 = add_columns (columns (df db)) (map flag_name flagged);
            replaced = filter (has_nan_label db) cols1
        in \<lparr>columns = cols1,
            rows = map (\<lambda>r. let r1 = with_flags (nan_values_list (cfg db)) flagged r
                            in (\<lambda>c. if c \<in> set replaced
                                     then replace_codes (NAN_VALUES (cfg db)) (r1 c)
                                     else r1 c))
                       (rows (df db))\<rparr>)"

text \<open>The rows of a category: \<^verbatim>\<open>df.filter(pl.col(category_column) == 1)\<close>.\<close>

definition category_rows :: "frame \<Rightarrow> string \<Rightarrow> (string \<Rightarrow> cell) list" where
  "category_rows f cat = filter (\<lambda>r. r cat = Some (Fin 1)) (rows f)"

text \<open>
  \<^verbatim>\<open>pl.mean_horizontal(cols)\<close>: the mean of the non-null cells of a row, null when
  every cell is null.
\<close>

definition mean_horizontal :: "cell list \<Rightarrow> cell" where
  "mean_horizontal cells =
     (case List.map_filter id cells of
        [] \<Rightarrow> None
      | v # vs \<Rightarrow> Some (fl_div (fl_sum (v # vs)) (Fin (of_nat (length (v # vs))))))"

text \<open>
  Comparisons of the engine order NaN above every other value, and a comparison with
  a null cell is null, which a \<^verbatim>\<open>when\<close> takes as false.
\<close>

fun pl_le :: "fl \<Rightarrow> fl \<Rightarrow> bool" where
  "pl_le x NaN = True"
| "pl_le NaN y = False"
| "pl_le NInf y = True"
| "pl_le x PInf = True"
| "pl_le (Fin a) (Fin b) = (a \<le> b)"
| "pl_le x y = False"

definition is_between :: "rat \<Rightarrow> rat \<Rightarrow> cell \<Rightarrow> bool" where
  "is_between lo hi x =
     (case x of None \<Rightarrow> False | Some v \<Rightarrow> pl_le (Fin lo) v \<and> pl_le v (Fin hi))"

definition ge :: "cell \<Rightarrow> rat \<Rightarrow> bool" where
  "ge x lo = (case x of None \<Rightarrow> False | Some v \<Rightarrow> pl_le (Fin lo) v)"

text \<open>A row written as the list of its non-null cells.\<close>

definition row_of :: "(string \<times> fl) list \<Rightarrow> string \<Rightarrow> cell" where
  "row_of al = map_of al"

section \<open>The ENI classifier: \<^verbatim>\<open>Calculations.eni\<close>\<close>

text \<open>
  The class of a respondent from the average of the area's questions:
  \<^verbatim>\<open>when(Value.is_between(3.0, 4.19)).then("2").when(Value >= 4.2).then("3").otherwise("1")\<close>.
\<close>

definition eni_class :: "cell \<Rightarrow> string" where
  "eni_class v =
     (if is_between 3 (419 / 100) v then ''2''
      else if ge v (42 / 10) then ''3''
      else ''1'')"

definition eni_value :: "string list \<Rightarrow> (string \<Rightarrow> cell) \<Rightarrow> cell" where
  "eni_value questions_present r = mean_horizontal (map r questions_present)"

text \<open>
  The proportions of one category: the rows are grouped by class, each count is
  divided by the number of rows of the category, and the result is sorted by class.
\<close>

definition class_count :: "string list \<Rightarrow> (string \<Rightarrow> cell) list \<Rightarrow> string \<Rightarrow> nat" where
  "class_count qs members k = length (filter (\<lambda>r. eni_class (eni_value qs r) = k) members)"

definition eni_proportions :: "string list \<Rightarrow> (string \<Rightarrow> cell) list \<Rightarrow> (string \<times> fl) list" where
  "eni_proportions qs members =
     map (\<lambda>k. (k, fl_div (Fin (of_nat (class_count qs members k)))
                         (Fin (of_nat (length members)))))
       (filter (\<lambda>k. 0 < class_count qs members k) [''1'', ''2'', ''3''])"

text \<open>
  One turn of the loop over the categories: \<open>None\<close> when the category is skipped.
  With \<^verbatim>\<open>weights\<close> set, the weight column is selected beside the questions: the local
  name \<^verbatim>\<open>weight_column\<close> is unbound when the configuration has no weight column.
\<close>

definition eni_category ::
  "config \<Rightarrow> bool \<Rightarrow> frame \<Rightarrow> string list \<Rightarrow> string
     \<Rightarrow> error + (string \<times> string \<times> fl) list option" where
  "eni_category c weights dfc qs cat =
     (if cat \<notin> set (columns dfc) then Inr None
      else if category_rows dfc cat = [] then Inr None
      else if weights \<and> WEIGHT_COLUMN c = None then Inl NameError
      else if weights \<and> the (WEIGHT_COLUMN c) \<notin> set (columns dfc) - {cat}
        then Inl ColumnNotFoundError
      else Inr (Some (map (\<lambda>(k, p). (cat, k, p)) (eni_proportions qs (category_rows dfc cat)))))"

fun eni_loop ::
  "config \<Rightarrow> bool \<Rightarrow> frame \<Rightarrow> string list \<Rightarrow> string list
     \<Rightarrow> error + (string \<times> string \<times> fl) list list" where
  "eni_loop c weights dfc qs [] = Inr []"
| "eni_loop c weights dfc qs (cat # cats) =
     (case eni_category c weights dfc qs cat of
        Inl e \<Rightarrow> Inl e
      | Inr res \<Rightarrow>
          (case eni_loop c weights dfc qs cats of
             Inl e \<Rightarrow> Inl e
           | Inr rest \<Rightarrow> Inr (case res of None \<Rightarrow> rest | Some t \<Rightarrow> t # rest)))"

text \<open>
  \<^verbatim>\<open>pivot(index="Category", columns=["ENI_Category"], values="ENI_Proportion",
  aggregate_function="first").fill_null(0)\<close>: one row per category, one column per
  class that occurs, both in order of first appearance.
\<close>

definition eni_pivot :: "(string \<times> string \<times> fl) list \<Rightarrow> (string \<times> (string \<times> fl) list) list" where
  "eni_pivot long =
     map (\<lambda>cat. (cat,
            map (\<lambda>k. (k, case find (\<lambda>(c', k', p). c' = cat \<and> k' = k) long of
                            None \<Rightarrow> Fin 0
                          | Some (c', k', p) \<Rightarrow> p))
                (remdups (map (\<lambda>(c', k', p). k') long))))
         (remdups (map (\<lambda>(c', k', p). c') long))"

text \<open>
  The outcome of \<^verbatim>\<open>eni\<close>: the empty frame returned when no question of the area is in
  the dataset, nothing when every category was skipped, or the table stored as
  \<^verbatim>\<open>self.database.eni_df\<close>. \<^verbatim>\<open>area_map.get(area)\<close> is \<^verbatim>\<open>None\<close> for an area that is not a
  key, and the comprehension over it raises.
\<close>

datatype eni_result =
  EmptyFrame | NoResult | EniTable "(string \<times> (string \<times> fl) list) list"

definition eni :: "database \<Rightarrow> string \<Rightarrow> bool \<Rightarrow> error + eni_result" where
  "eni db area weights =
     (let dfc = df_clean db in
      case map_of (area_map (cfg db)) area of
        None \<Rightarrow> Inl TypeError
      | Some questions \<Rightarrow>
          (let questions_present = filter (\<lambda>q. q \<in> set (columns dfc)) questions in
           if questions_present = [] then Inr EmptyFrame
           else (case eni_loop (cfg db) weights dfc questions_present (categories db) of
                   Inl e \<Rightarrow> Inl e
                 | Inr results_list \<Rightarrow>
                     if results_list = [] then Inr NoResult
                     else Inr (EniTable (eni_pivot (concat results_list))))))"

section \<open>The ranking aggregator: \<^verbatim>\<open>Calculations._calculate_ranking_metrics\<close>\<close>

text \<open>Running a list of fallible steps: the first error is the result.\<close>

fun collect :: "(error + 'a) list \<Rightarrow> error + 'a list" where
  "collect [] = Inr []"
| "collect (x # xs) =
     (case x of
        Inl e \<Rightarrow> Inl e
      | Inr v \<Rightarrow> (case collect xs of Inl e \<Rightarrow> Inl e | Inr vs \<Rightarrow> Inr (v # vs)))"

text \<open>
  The strict cast of a string to \<^verbatim>\<open>Int64\<close>: decimal digits after an optional sign;
  \<open>None\<close> stands for the cast failing, which raises.
\<close>

definition digit_val :: "char \<Rightarrow> nat option" where
  "digit_val c =
     (if 48 \<le> (of_char c :: nat) \<and> (of_char c :: nat) \<le> 57
      then Some (of_char c - 48) else None)"

fun digits_val :: "nat \<Rightarrow> string \<Rightarrow> nat option" where
  "digits_val acc [] = Some acc"
| "digits_val acc (c # cs) =
     (case digit_val c of None \<Rightarrow> None | Some d \<Rightarrow> digits_val (10 * acc + d) cs)"

definition str_to_int :: "string \<Rightarrow> int option" where
  "str_to_int s =
     (case s of
        [] \<Rightarrow> None
      | c # cs \<Rightarrow>
          if c = CHR ''-'' then (if cs = [] then None else map_option (\<lambda>n. - int n) (digits_val 0 cs))
          else if c = CHR ''+'' then (if cs = [] then None else map_option int (digits_val 0 cs))
          else map_option int (digits_val 0 s))"

text \<open>
  The rank of a ranking column is the number after the prefix
  \<^verbatim>\<open>base_question + "M"\<close> of its name.
\<close>

definition rank_of_column :: "string \<Rightarrow> string \<Rightarrow> int option" where
  "rank_of_column bq col = str_to_int (drop (length (bq @ ''M'')) col)"

text \<open>
  The strict cast of a Float64 cell to \<^verbatim>\<open>Int64\<close> truncates towards zero and raises on
  NaN and on an infinity.
\<close>

definition trunc_toward_zero :: "rat \<Rightarrow> int" where
  "trunc_toward_zero q = (if 0 \<le> q then \<lfloor>q\<rfloor> else \<lceil>q\<rceil>)"

definition cast_int64 :: "cell \<Rightarrow> error + int option" where
  "cast_int64 x =
     (case x of
        None \<Rightarrow> Inr None
      | Some (Fin q) \<Rightarrow> Inr (Some (trunc_toward_zero q))
      | Some _ \<Rightarrow> Inl InvalidOperationError)"

text \<open>
  A row of the melted frame: the rank of the column, the ranked item, the weight of
  the respondent (null when no weights are used).
\<close>

type_synonym entry = "int \<times> int option \<times> cell"

definition melt_entry ::
  "string \<Rightarrow> string option \<Rightarrow> string \<Rightarrow> (string \<Rightarrow> cell) \<Rightarrow> error + entry" where
  "melt_entry bq w col r =
     (case rank_of_column bq col of
        None \<Rightarrow> Inl InvalidOperationError
      | Some k \<Rightarrow>
          (case cast_int64 (r col) of
             Inl e \<Rightarrow> Inl e
           | Inr i \<Rightarrow> Inr (k, i, (case w of None \<Rightarrow> None | Some wc \<Rightarrow> r wc))))"

definition melted ::
  "string \<Rightarrow> string option \<Rightarrow> string list \<Rightarrow> (string \<Rightarrow> cell) list \<Rightarrow> error + entry list" where
  "melted bq w cols members =
     collect (concat (map (\<lambda>col. map (melt_entry bq w col) members) cols))"

text \<open>
  The three filters: a positive rank; an item that is not a missing code; an item
  among the possible values. A null item passes neither \<^verbatim>\<open>is_in\<close> filter.
\<close>

definition keep_entry :: "rat list \<Rightarrow> rat list \<Rightarrow> entry \<Rightarrow> bool" where
  "keep_entry codes possible e =
     (case e of (k, i, w) \<Rightarrow>
        0 < k \<and> (case i of None \<Rightarrow> False
                 | Some v \<Rightarrow> of_int v \<notin> set codes \<and> of_int v \<in> set possible))"

definition rank_score :: "entry \<Rightarrow> fl" where
  "rank_score e = (case e of (k, i, w) \<Rightarrow> fl_div (Fin 1) (Fin (of_int k)))"

definition weighted_rank_score :: "entry \<Rightarrow> cell" where
  "weighted_rank_score e = (case e of (k, i, w) \<Rightarrow> lift2 fl_mul (Some (rank_score e)) w)"

text \<open>\<^verbatim>\<open>Expr.sum()\<close> skips the null cells.\<close>

definition sum_cells :: "cell list \<Rightarrow> fl" where
  "sum_cells xs = fl_sum (List.map_filter id xs)"

definition total_score_of :: "bool \<Rightarrow> entry list \<Rightarrow> cell" where
  "total_score_of use_weights es =
     (if use_weights then Some (sum_cells (map weighted_rank_score es))
      else Some (fl_sum (map rank_score es)))"

definition rank_count_of :: "entry list \<Rightarrow> int \<Rightarrow> int" where
  "rank_count_of es k = int (length (filter (\<lambda>(k', i, w). k' = k) es))"

definition rank_weighted_of :: "entry list \<Rightarrow> int \<Rightarrow> error + int option" where
  "rank_weighted_of es k =
     cast_int64 (Some (sum_cells (map (\<lambda>(k', i, w). if k' = k then w else None) es)))"

record ranking_row =
  Category :: string
  Ranked_Item :: int
  Rank_Count :: "int list"
  Rank_Percentage :: "cell list"
  Rank_Weighted_Sum :: "int option list"
  Total_Score :: cell
  Total_Respondents :: fl

text \<open>
  The row of one ranked item, from the entries that name it. The percentages divide
  by the respondent count of the category when that is positive.
\<close>

definition ranking_item_row ::
  "bool \<Rightarrow> string \<Rightarrow> nat \<Rightarrow> fl \<Rightarrow> entry list \<Rightarrow> int \<Rightarrow> error + ranking_row" where
  "ranking_item_row use_weights cat max_rank total_respondents_count es item =
     (let mine = filter (\<lambda>(k, i, w). i = Some item) es;
          ranks = map int [1 ..< Suc max_rank];
          counts = map (rank_count_of mine) ranks
      in case (if use_weights then collect (map (rank_weighted_of mine) ranks) else Inr []) of
           Inl e \<Rightarrow> Inl e
         | Inr weighted \<Rightarrow>
             Inr \<lparr>Category = cat, Ranked_Item = item, Rank_Count = counts,
                  Rank_Percentage =
                    (if fl_less (Fin 0) total_respondents_count
                     then (if use_weights
                           then map (\<lambda>x. fill_null (Fin 0)
                                       (lift2 fl_div (map_option (\<lambda>n. Fin (of_int n)) x) (Some total_respondents_count)))
                                  weighted
                           else map (\<lambda>n. fill_null (Fin 0)
                                       (lift2 fl_div (Some (Fin (of_int n))) (Some total_respondents_count)))
                                  counts)
                     else map (\<lambda>k. Some (Fin 0)) ranks),
                  Rank_Weighted_Sum = weighted,
                  Total_Score = total_score_of use_weights mine,
                  Total_Respondents = total_respondents_count\<rparr>)"

text \<open>
  The respondent count of a category: the number of its rows, or with weights the sum
  of the weight column over them.
\<close>

definition respondent_count :: "string option \<Rightarrow> (string \<Rightarrow> cell) list \<Rightarrow> fl" where
  "respondent_count w members =
     (case w of None \<Rightarrow> Fin (of_nat (length members))
      | Some wc \<Rightarrow> sum_cells (map (\<lambda>r. r wc) members))"

text \<open>
  One turn of the loop over the categories; \<open>None\<close> when the category is skipped. The
  rows of the category are the rows whose flag is not null. \<open>w\<close> is the weight column
  when weights are used.
\<close>

definition ranking_category ::
  "rat list \<Rightarrow> rat list \<Rightarrow> string \<Rightarrow> string option \<Rightarrow> string list \<Rightarrow> frame \<Rightarrow> string
     \<Rightarrow> error + ranking_row list option" where
  "ranking_category codes possible bq w cols f cat =
     (if cat \<notin> set (columns f) then Inr None
      else
        let members = filter (\<lambda>r. r cat \<noteq> None) (rows f) in
        if members = [] then Inr None
        else if (case w of None \<Rightarrow> False | Some wc \<Rightarrow> wc \<notin> set (columns f))
          then Inl ColumnNotFoundError
        else
          let total_respondents_count = respondent_count w members in
          if total_respondents_count = Fin 0 then Inr None
          else
            (case melted bq w cols members of
               Inl e \<Rightarrow> Inl e
             | Inr es \<Rightarrow>
                 let kept = filter (keep_entry codes possible) es in
                 if kept = [] then Inr None
                 else
                   (case collect (map (ranking_item_row (w \<noteq> None) cat (length cols) total_respondents_count kept)
                                   (sort (remdups (List.map_filter (\<lambda>(k, i, w'). i) kept)))) of
                      Inl e \<Rightarrow> Inl e
                    | Inr rs \<Rightarrow> Inr (Some rs))))"

text \<open>
  \<^verbatim>\<open>_calculate_ranking_metrics\<close>: the list of the per-category tables, empty when the
  question has no value labels, no possible value or no ranking column in the frame.
\<close>

definition calculate_ranking_metrics ::
  "config \<Rightarrow> frame \<Rightarrow> string \<Rightarrow> string list \<Rightarrow> rat list \<Rightarrow> bool \<Rightarrow> string list
     \<Rightarrow> error + ranking_row list list" where
  "calculate_ranking_metrics c df_group_calc bq cols labels use_weights category_cols =
     (let possible_values = filter (\<lambda>v. v \<notin> set (nan_values_list c)) labels;
          ranking_cols_present = filter (\<lambda>col. col \<in> set (columns df_group_calc)) cols
      in if labels = [] \<or> possible_values = [] \<or> ranking_cols_present = [] then Inr []
         else
           (case collect (map (ranking_category (nan_values_list c) possible_values bq
                                 (if use_weights then WEIGHT_COLUMN c else None)
                                 ranking_cols_present df_group_calc)
                              category_cols) of
              Inl e \<Rightarrow> Inl e
            | Inr rs \<Rightarrow> Inr (List.map_filter id rs)))"



section \<open>The percentage aggregator: \<^verbatim>\<open>Calculations.percentages\<close>\<close>

text \<open>
  The metric columns of the aggregated frame. \<open>Count col v\<close> is the column
  \<^verbatim>\<open>{col}_{value}_count\<close>, \<open>Weighted col v\<close> is \<^verbatim>\<open>{col}_{value}_weighted\<close>,
  \<open>Percentage col v\<close> is \<^verbatim>\<open>{col}_{value}_percentage\<close>; the others are
  \<^verbatim>\<open>{col}_nan_count\<close>, \<^verbatim>\<open>{col}_nan_weighted\<close>, \<^verbatim>\<open>{col}_nan_percentage\<close>,
  \<^verbatim>\<open>{col}_total_count\<close> and \<^verbatim>\<open>{col}_total_weighted_count\<close>.
\<close>

datatype metric =
  Count string rat | Weighted string rat | Percentage string rat
| NanCount string | NanWeighted string | NanPercentage string
| TotalCount string | TotalWeightedCount string

text \<open>
  The aggregation expressions, over the rows \<open>g\<close> of one group. A comparison with a
  null cell is null and counts for nothing; \<^verbatim>\<open>when(c).then(w).sum()\<close> adds the weights
  of the rows where \<open>c\<close> is true and skips null weights.
\<close>

definition count_expr :: "(string \<Rightarrow> cell) list \<Rightarrow> string \<Rightarrow> rat \<Rightarrow> cell" where
  "count_expr g col v = Some (Fin (of_nat (length (filter (\<lambda>r. r col = Some (Fin v)) g))))"

definition weighted_expr :: "(string \<Rightarrow> cell) list \<Rightarrow> string \<Rightarrow> string \<Rightarrow> rat \<Rightarrow> cell" where
  "weighted_expr g w col v =
     Some (sum_cells (map (\<lambda>r. if r col = Some (Fin v) then r w else None) g))"

definition nan_count_expr :: "rat list \<Rightarrow> (string \<Rightarrow> cell) list \<Rightarrow> string \<Rightarrow> cell" where
  "nan_count_expr codes g col =
     (if codes \<noteq> []
      then Some (Fin (of_nat (length (filter (\<lambda>r. is_in codes (r col) = Some True) g))))
      else Some (Fin 0))"

definition nan_weighted_expr ::
  "rat list \<Rightarrow> (string \<Rightarrow> cell) list \<Rightarrow> string \<Rightarrow> string \<Rightarrow> cell" where
  "nan_weighted_expr codes g w col =
     (if codes \<noteq> []
      then Some (sum_cells (map (\<lambda>r. if is_in codes (r col) = Some True then r w else None) g))
      else Some (Fin 0))"

definition total_count_expr :: "rat list \<Rightarrow> (string \<Rightarrow> cell) list \<Rightarrow> string \<Rightarrow> cell" where
  "total_count_expr codes g col =
     Some (Fin (of_nat (length (filter (\<lambda>r. is_in codes (r col) = Some False) g))))"

definition total_weighted_count_expr ::
  "rat list \<Rightarrow> (string \<Rightarrow> cell) list \<Rightarrow> string \<Rightarrow> string \<Rightarrow> cell" where
  "total_weighted_count_expr codes g w col =
     Some (sum_cells (map (\<lambda>r. if is_in codes (r col) = Some False then r w else None) g))"

text \<open>
  The percentage expressions. Without weights: \<^verbatim>\<open>(count / total_count)\<close> with
  \<^verbatim>\<open>fill_null(0).fill_nan(0)\<close>. With weights: \<^verbatim>\<open>(weighted / total_weighted_count)\<close> with
  \<^verbatim>\<open>fill_null(0)\<close> only. The missing percentage divides by \<^verbatim>\<open>total_count\<close> plus the
  missing count; with weights the code takes \<^verbatim>\<open>{col}_total_count\<close> there as well.
\<close>

definition percentage_expr ::
  "rat list \<Rightarrow> string option \<Rightarrow> (string \<Rightarrow> cell) list \<Rightarrow> string \<Rightarrow> rat \<Rightarrow> cell" where
  "percentage_expr codes w g col v =
     (case w of
        Some wc \<Rightarrow>
          fill_null (Fin 0)
            (lift2 fl_div (weighted_expr g wc col v) (total_weighted_count_expr codes g wc col))
      | None \<Rightarrow>
          fill_nan (Fin 0) (fill_null (Fin 0)
            (lift2 fl_div (count_expr g col v) (total_count_expr codes g col))))"

definition nan_percentage_expr ::
  "rat list \<Rightarrow> string option \<Rightarrow> (string \<Rightarrow> cell) list \<Rightarrow> string \<Rightarrow> cell" where
  "nan_percentage_expr codes w g col =
     (case w of
        Some wc \<Rightarrow>
          fill_nan (Fin 0) (fill_null (Fin 0)
            (lift2 fl_div (nan_weighted_expr codes g wc col)
               (lift2 fl_add (total_count_expr codes g col) (nan_weighted_expr codes g wc col))))
      | None \<Rightarrow>
          fill_nan (Fin 0) (fill_null (Fin 0)
            (lift2 fl_div (nan_count_expr codes g col)
               (lift2 fl_add (total_count_expr codes g col) (nan_count_expr codes g col)))))"

text \<open>The metric columns of one column of the question, for one group of rows.\<close>

definition column_metrics ::
  "rat list \<Rightarrow> rat list \<Rightarrow> string option \<Rightarrow> (string \<Rightarrow> cell) list \<Rightarrow> string
     \<Rightarrow> (metric \<times> cell) list" where
  "column_metrics codes possible_values w g col =
     concat (map (\<lambda>v. (Count col v, count_expr g col v)
                      # (case w of None \<Rightarrow> []
                         | Some wc \<Rightarrow> [(Weighted col v, weighted_expr g wc col v)]))
                 possible_values)
     @ (NanCount col, nan_count_expr codes g col)
     # (case w of None \<Rightarrow> [] | Some wc \<Rightarrow> [(NanWeighted col, nan_weighted_expr codes g wc col)])
     @ (TotalCount col, total_count_expr codes g col)
     # (case w of None \<Rightarrow> []
        | Some wc \<Rightarrow> [(TotalWeightedCount col, total_weighted_count_expr codes g wc col)])"

definition column_percentages ::
  "rat list \<Rightarrow> rat list \<Rightarrow> string option \<Rightarrow> (string \<Rightarrow> cell) list \<Rightarrow> string
     \<Rightarrow> (metric \<times> cell) list" where
  "column_percentages codes possible_values w g col =
     map (\<lambda>v. (Percentage col v, percentage_expr codes w g col v)) possible_values
     @ [(NanPercentage col, nan_percentage_expr codes w g col)]"

text \<open>
  \<^verbatim>\<open>df_group.group_by(pl.col(category_col)).agg(...)\<close> for one category column: one
  aggregated row for every distinct value of the flag, in the order \<open>ord\<close> the engine
  returns the groups in; the row of the null flag is dropped; every remaining row is
  labelled with the name of the category column.
\<close>

type_synonym agg_row = "string \<times> (metric \<times> cell) list"

definition grouped_agg ::
  "(cell list \<Rightarrow> cell list) \<Rightarrow> rat list \<Rightarrow> rat list \<Rightarrow> string option \<Rightarrow> string list
     \<Rightarrow> (string \<Rightarrow> cell) list \<Rightarrow> string \<Rightarrow> agg_row list" where
  "grouped_agg ord codes possible_values w cols rs category_col =
     map (\<lambda>k. let g = filter (\<lambda>r. r category_col = k) rs
              in (category_col,
                  concat (map (column_metrics codes possible_values w g) cols)
                  @ concat (map (column_percentages codes possible_values w g) cols)))
         (filter (\<lambda>k. k \<noteq> None) (ord (remdups (map (\<lambda>r. r category_col) rs))))"

text \<open>
  The rows that one question group of type \<^verbatim>\<open>multi_response\<close>, \<^verbatim>\<open>grid\<close> or
  \<^verbatim>\<open>single_choice\<close> adds to \<^verbatim>\<open>percentage_results_list\<close>; none when the group is skipped.
  \<open>w\<close> is the weight column when weights are used.
\<close>

definition percentage_group ::
  "(cell list \<Rightarrow> cell list) \<Rightarrow> database \<Rightarrow> string option \<Rightarrow> question_group
     \<Rightarrow> error + agg_row list" where
  "percentage_group ord db w grp =
     (let codes = nan_values_list (cfg db);
          rs = (case map_of (question_map (cfg db)) (base_question grp) of
                  None \<Rightarrow> rows (df db)
                | Some condition \<Rightarrow> filter condition (rows (df db)));
          possible_values =
            (if codes \<noteq> [] then filter (\<lambda>v. v \<notin> set codes) (value_labels_info grp)
             else value_labels_info grp);
          cols = filter (\<lambda>col. col \<in> set (columns (df db))) (qcolumns grp);
          cats = filter (\<lambda>c. c \<in> set (columns (df db))) (categories db)
      in if value_labels_info grp = [] \<or> possible_values = [] \<or> cols = [] then Inr []
         else if cats \<noteq> [] \<and> (case w of None \<Rightarrow> False | Some wc \<Rightarrow> wc \<notin> set (columns (df db)))
           then Inl ColumnNotFoundError
         else Inr (concat (map (grouped_agg ord codes possible_values w cols rs) cats)))"

text \<open>
  The loop over the question groups. A ranking group is handed to
  \<^verbatim>\<open>_calculate_ranking_metrics\<close> and its tables are concatenated into
  \<^verbatim>\<open>self.database.ranked_df\<close>; \<^verbatim>\<open>pl.concat\<close> raises on an empty list. The state is the
  pair of the rows collected so far and the ranking table.
\<close>

definition ranking_frame :: "database \<Rightarrow> question_group \<Rightarrow> frame" where
  "ranking_frame db grp =
     \<lparr>columns = columns (df db),
      rows = (case map_of (question_map (cfg db)) (base_question grp) of
                None \<Rightarrow> rows (df db)
              | Some condition \<Rightarrow> filter condition (rows (df db)))\<rparr>"

fun percentages_loop ::
  "(cell list \<Rightarrow> cell list) \<Rightarrow> database \<Rightarrow> bool \<Rightarrow> question_group list
     \<Rightarrow> agg_row list \<times> ranking_row list option
     \<Rightarrow> error + (agg_row list \<times> ranking_row list option)" where
  "percentages_loop ord db use_weights [] st = Inr st"
| "percentages_loop ord db use_weights (grp # grps) (results, ranked) =
     (if question_type grp \<in> {''multi_response'', ''grid'', ''single_choice''} then
        (case percentage_group ord db
                (if use_weights then WEIGHT_COLUMN (cfg db) else None) grp of
           Inl e \<Rightarrow> Inl e
         | Inr new \<Rightarrow> percentages_loop ord db use_weights grps (results @ new, ranked))
      else if question_type grp = ''ranking'' then
        (case calculate_ranking_metrics (cfg db) (ranking_frame db grp) (base_question grp)
                (qcolumns grp) (value_labels_info grp) use_weights (categories db) of
           Inl e \<Rightarrow> Inl e
         | Inr [] \<Rightarrow> Inl ValueError
         | Inr tables \<Rightarrow> percentages_loop ord db use_weights grps (results, Some (concat tables)))
      else percentages_loop ord db use_weights grps (results, ranked))"

definition percentages ::
  "(cell list \<Rightarrow> cell list) \<Rightarrow> database \<Rightarrow> bool
     \<Rightarrow> error + (agg_row list \<times> ranking_row list option)" where
  "percentages ord db weights =
     percentages_loop ord db (weights \<and> WEIGHT_COLUMN (cfg db) \<noteq> None)
       (question_groups db) ([], None)"

text \<open>
  The long form is pivoted with \<^verbatim>\<open>aggregate_function="first"\<close>: for a category and a
  metric column, the table reports the first non-null value among the rows that carry
  the name of the category.
\<close>

definition reported :: "agg_row list \<Rightarrow> string \<Rightarrow> metric \<Rightarrow> cell" where
  "reported results category m =
     (case List.map_filter
             (\<lambda>(c, ms). if c = category then (case map_of ms m of Some (Some x) \<Rightarrow> Some x | _ \<Rightarrow> None)
                        else None)
             results of
        [] \<Rightarrow> None
      | x # xs \<Rightarrow> Some x)"

text \<open>
  For the statements below: the number of rows of a group whose cell in a column is a
  non-missing answer, and the number of rows whose cell is a missing code.
\<close>

definition answered :: "rat list \<Rightarrow> (string \<Rightarrow> cell) list \<Rightarrow> string \<Rightarrow> nat" where
  "answered codes g col = length (filter (\<lambda>r. is_in codes (r col) = Some False) g)"

definition missing :: "rat list \<Rightarrow> (string \<Rightarrow> cell) list \<Rightarrow> string \<Rightarrow> nat" where
  "missing codes g col = length (filter (\<lambda>r. is_in codes (r col) = Some True) g)"

text \<open>A weight column is usable on a group when every weight is null or finite.\<close>

definition finite_cells :: "(string \<Rightarrow> cell) list \<Rightarrow> string \<Rightarrow> bool" where
  "finite_cells g wc = list_all (\<lambda>r. case r wc of None \<Rightarrow> True | Some (Fin q) \<Rightarrow> True | _ \<Rightarrow> False) g"

definition cell_val :: "cell \<Rightarrow> rat" where
  "cell_val x = (case x of Some (Fin q) \<Rightarrow> q | _ \<Rightarrow> 0)"

section \<open>The index aggregator: \<^verbatim>\<open>Calculations.index\<close>\<close>

text \<open>
  The category path of \<^verbatim>\<open>index\<close>, for \<^verbatim>\<open>correlate=None\<close>. A row of the melted frame
  holds the question, its area (set by the join with the area map), the value, the
  weight (null when no weights are selected) and the \<^verbatim>\<open>Nan_Count\<close> joined to the
  question.
\<close>

record melted =
  m_question :: string
  m_area :: string
  m_value :: cell
  m_weight :: cell
  m_nan_count :: cell

text \<open>
  \<^verbatim>\<open>nan_counts\<close>: for a question that has a flag column, the number of rows of the
  category whose flag is true; the left join leaves the other questions with a null.
\<close>

definition nan_count_of ::
  "string list \<Rightarrow> (string \<Rightarrow> cell) list \<Rightarrow> string \<Rightarrow> cell" where
  "nan_count_of flagged members q =
     (if q \<in> set flagged
      then Some (Fin (of_nat (length (filter (\<lambda>r. r (flag_name q) = Some (Fin 1)) members))))
      else None)"

definition melt_index ::
  "string list \<Rightarrow> string option \<Rightarrow> string list \<Rightarrow> (string \<Rightarrow> cell) list \<Rightarrow> melted list" where
  "melt_index flagged w questions_present members =
     concat (map (\<lambda>q. map (\<lambda>r. \<lparr>m_question = q, m_area = [], m_value = r q,
                                  m_weight = (case w of None \<Rightarrow> None | Some wc \<Rightarrow> r wc),
                                  m_nan_count = nan_count_of flagged members q\<rparr>)
                           members)
                 questions_present)"

definition area_map_list :: "config \<Rightarrow> (string \<times> string) list" where
  "area_map_list c = concat (map (\<lambda>(area, qs). map (\<lambda>q. (q, area)) qs) (area_map c))"

text \<open>The left join with the area map, followed by the filter on a non-null area.\<close>

definition join_area :: "(string \<times> string) list \<Rightarrow> melted list \<Rightarrow> melted list" where
  "join_area al ms =
     concat (map (\<lambda>m. map (\<lambda>(q, a). m\<lparr>m_area := a\<rparr>)
                         (filter (\<lambda>(q, a). q = m_question m) al))
                 ms)"

text \<open>
  The optional rescaling. The range of a question is the least and the greatest of
  its coded values that are not missing codes; a question without a range, or with a
  degenerate one, keeps its values.
\<close>

definition question_meta_ranges ::
  "database \<Rightarrow> string list \<Rightarrow> (string \<times> rat \<times> rat) list" where
  "question_meta_ranges db questions_present =
     List.map_filter
       (\<lambda>(q, keys).
          let numeric_values = filter (\<lambda>v. v \<notin> set (nan_values_list (cfg db))) keys
          in if numeric_values = [] then None
             else Some (q, Min (set numeric_values), Max (set numeric_values)))
       (filter (\<lambda>(q, keys). q \<in> set questions_present) (question_df db))"

definition value_scaled :: "rat \<times> rat \<Rightarrow> rat \<Rightarrow> rat \<Rightarrow> cell \<Rightarrow> cell" where
  "value_scaled scale lo hi v =
     (case scale of (target_min, target_max) \<Rightarrow>
        if lo < hi
        then lift2 fl_add
               (lift2 fl_mul (lift2 fl_sub v (Some (Fin lo)))
                  (Some (Fin ((target_max - target_min) / (hi - lo)))))
               (Some (Fin target_min))
        else v)"

definition scale_rows ::
  "(rat \<times> rat) option \<Rightarrow> (string \<times> rat \<times> rat) list \<Rightarrow> melted list \<Rightarrow> melted list" where
  "scale_rows scale ranges ms =
     (case scale of
        None \<Rightarrow> ms
      | Some s \<Rightarrow>
          concat (map (\<lambda>m. case filter (\<lambda>(q, lo, hi). q = m_question m) ranges of
                               [] \<Rightarrow> [m]
                             | rs \<Rightarrow> map (\<lambda>(q, lo, hi). m\<lparr>m_value := value_scaled s lo hi (m_value m)\<rparr>) rs)
                      ms))"

text \<open>
  The index of a question: \<^verbatim>\<open>melted_df.fill_null(0)\<close> is grouped by question, area
  and \<^verbatim>\<open>Nan_Count\<close>; \<^verbatim>\<open>pl.count("Value")\<close> counts the rows of the group, every null
  having become 0; the index is made null when the count plus \<^verbatim>\<open>Nan_Count\<close> is below
  \<^verbatim>\<open>MINIMUM_COUNT\<close>.
\<close>

definition filled :: "cell \<Rightarrow> fl" where
  "filled x = (case x of None \<Rightarrow> Fin 0 | Some v \<Rightarrow> v)"

definition individual_index_expr :: "bool \<Rightarrow> melted list \<Rightarrow> fl" where
  "individual_index_expr weighted g =
     (if weighted
      then fl_div (fl_sum (map (\<lambda>m. fl_mul (filled (m_value m)) (filled (m_weight m))) g))
                  (fl_sum (map (\<lambda>m. filled (m_weight m)) g))
      else fl_div (fl_sum (map (\<lambda>m. filled (m_value m)) g)) (Fin (of_nat (length g))))"

definition count_individual :: "melted list \<Rightarrow> nat" where
  "count_individual g = length g"

definition individual_index :: "int \<Rightarrow> bool \<Rightarrow> melted list \<Rightarrow> cell" where
  "individual_index minimum_count weighted g =
     (case g of
        [] \<Rightarrow> None
      | m # ms \<Rightarrow>
          if fl_less (fl_add (Fin (of_nat (count_individual g))) (filled (m_nan_count m)))
                     (Fin (of_int minimum_count))
          then None
          else Some (individual_index_expr weighted g))"

text \<open>
  The index of an area, over the rows of the area as they are before the nulls are
  filled: the sums and the mean skip null cells.
\<close>

definition mean_cells :: "cell list \<Rightarrow> cell" where
  "mean_cells cells =
     (case List.map_filter id cells of
        [] \<Rightarrow> None
      | v # vs \<Rightarrow> Some (fl_div (fl_sum (v # vs)) (Fin (of_nat (length (v # vs))))))"

definition area_index_expr :: "bool \<Rightarrow> melted list \<Rightarrow> cell" where
  "area_index_expr weighted g =
     (if weighted
      then Some (fl_div (sum_cells (map (\<lambda>m. lift2 fl_mul (m_value m) (m_weight m)) g))
                        (sum_cells (map m_weight g)))
      else mean_cells (map m_value g))"

record index_row =
  ix_category :: string
  ix_area :: string
  ix_question :: string
  Individual_Index :: cell
  Area_Index :: cell

text \<open>
  One turn of the loop over the categories; \<open>None\<close> when the category is skipped.
  Selecting a column twice raises, so a question may be listed once in the area map.
\<close>

definition index_category ::
  "database \<Rightarrow> bool \<Rightarrow> (rat \<times> rat) option \<Rightarrow> frame \<Rightarrow> string list \<Rightarrow> string
     \<Rightarrow> error + index_row list option" where
  "index_category db weights scale dfc questions_present cat =
     (if cat \<notin> set (columns dfc) then Inr None
      else
        let members = category_rows dfc cat in
        if members = [] then Inr None
        else if weights \<and> WEIGHT_COLUMN (cfg db) = None then Inl NameError
        else if weights \<and> the (WEIGHT_COLUMN (cfg db)) \<notin> set (columns dfc) - {cat}
          then Inl ColumnNotFoundError
        else if \<not> distinct ((if weights then [the (WEIGHT_COLUMN (cfg db))] else [])
                              @ questions_present)
          then Inl DuplicateError
        else
          let w = (if weights then WEIGHT_COLUMN (cfg db) else None);
              m1 = filter (\<lambda>m. m_value m \<noteq> Some NaN)
                     (melt_index (flagged_columns db) w questions_present members)
          in if m1 = [] then Inr None
             else
               let m2 = join_area (area_map_list (cfg db)) m1 in
               if m2 = [] then Inr None
               else
                 let m3 = scale_rows scale (question_meta_ranges db questions_present) m2;
                     keys = remdups (map (\<lambda>m. (m_question m, m_area m, filled (m_nan_count m))) m3)
                 in Inr (Some (map (\<lambda>(q, a, n).
                        \<lparr>ix_category = cat, ix_area = a, ix_question = q,
                         Individual_Index =
                           individual_index (MINIMUM_COUNT (cfg db)) weights
                             (filter (\<lambda>m. m_question m = q \<and> m_area m = a
                                           \<and> filled (m_nan_count m) = n) m3),
                         Area_Index =
                           area_index_expr weights (filter (\<lambda>m. m_area m = a) m3)\<rparr>)
                      keys)))"

text \<open>
  The outcome of \<^verbatim>\<open>index\<close>: the empty frame when no question of the area map is in
  the dataset; the overall index when there are no categories (its value is not
  modelled); the rows behind the pivoted table stored as \<^verbatim>\<open>self.database.index_df\<close>;
  or nothing when every category was skipped.
\<close>

datatype index_result =
  EmptyIndex | OverallIndex | NoIndex | IndexTable "index_row list"

definition index ::
  "database \<Rightarrow> bool \<Rightarrow> (rat \<times> rat) option \<Rightarrow> error + index_result" where
  "index db weights scale =
     (let dfc = df_clean db;
          all_questions = concat (map snd (area_map (cfg db)));
          questions_present = filter (\<lambda>q. q \<in> set (columns dfc)) all_questions
      in if questions_present = [] then Inr EmptyIndex
         else if categories db = [] then Inr OverallIndex
         else
           (case collect (map (index_category db weights scale dfc questions_present)
                              (categories db)) of
              Inl e \<Rightarrow> Inl e
            | Inr results \<Rightarrow>
                if List.map_filter id results = [] then Inr NoIndex
                else Inr (IndexTable (concat (List.map_filter id results)))))"

text \<open>
  The pivot on area and question with \<^verbatim>\<open>aggregate_function="first"\<close>: the individual
  index that the table shows for a category and a question.
\<close>

definition reported_index :: "index_row list \<Rightarrow> string \<Rightarrow> string \<Rightarrow> cell option" where
  "reported_index table cat q =
     (case filter (\<lambda>row. ix_category row = cat \<and> ix_question row = q) table of
        [] \<Rightarrow> None
      | row # rest \<Rightarrow> Some (Individual_Index row))"

section \<open>Properties of the IPF weight solver\<close>


















text \<open>
  Claim C5 (the ratio of a sweep takes target and current total of the same
  category, whatever the order of the tables) does not hold of the code: \<^verbatim>\<open>adj_df\<close>
  pairs the i-th survey group with the i-th population of the target dictionary. The
  target table lists \<open>b\<close> (population 10) before \<open>a\<close> (population 30), the survey
  groups come as \<open>a\<close>, \<open>b\<close>: the rws of \<open>a\<close> are scaled to 10 and the rws of \<open>b\<close>
  to 30.
\<close>

theorem sweep_pairs_by_position:
  "sweep id \<lparr>mapped = Some, target_marginal = [(Some ''b'', 10), (Some ''a'', 30)]\<rparr>
     [(''a'', Fin 1), (''b'', Fin 1)] = Inr [(''a'', Fin 10), (''b'', Fin 30)]"
  by code_simp

section \<open>Properties of the ENI classifier\<close>





text \<open>
  Claim C3 (class "2" exactly on the half-open interval from 3.0 to 4.2) does not
  hold of the code: the test for class "2" is \<^verbatim>\<open>is_between(3.0, 4.19)\<close>, closed at
  4.19, and class "3" starts at 4.2, so an average strictly between 4.19 and 4.2 falls
  through to \<^verbatim>\<open>otherwise\<close>. A respondent who answers 4.19 and 4.2 has the average
  4.195 and is put in class "1"; the averages 3.0, 4.2 and 2.9 get the classes "2",
  "3" and "1".
\<close>

theorem eni_class_gap:
  "eni_value [''q1'', ''q2''] (row_of [(''q1'', Fin (419 / 100)), (''q2'', Fin (42 / 10))])
     = Some (Fin (839 / 200))
   \<and> eni_class (Some (Fin (839 / 200))) = ''1''
   \<and> eni_class (Some (Fin 3)) = ''2''
   \<and> eni_class (Some (Fin (42 / 10))) = ''3''
   \<and> eni_class (Some (Fin (29 / 10))) = ''1''
   \<and> eni \<lparr>df = \<lparr>columns = [''seg'', ''q1'', ''q2''],
                 rows = [row_of [(''seg'', Fin 1), (''q1'', Fin (419 / 100)),
                                 (''q2'', Fin (42 / 10))]]\<rparr>,
           cfg = \<lparr>WEIGHT_COLUMN = None, NAN_VALUES = [],
                  area_map = [(''A'', [''q1'', ''q2''])], MINIMUM_COUNT = 1, question_map = []\<rparr>,
           categories = [''seg''], variable_value_labels = [], question_groups = [], question_df = []\<rparr> ''A'' False
     = Inr (EniTable [(''seg'', [(''1'', Fin 1)])])"
  by code_simp

text \<open>
  Claim C9 (a configuration gap is skipped with a diagnostic and never raises) does
  not hold of \<^verbatim>\<open>eni\<close>: for an area that is not a key of the area map,
  \<^verbatim>\<open>area_map.get(area)\<close> is \<^verbatim>\<open>None\<close> and iterating over it raises a \<^verbatim>\<open>TypeError\<close>, for
  every dataset and whatever else the area map holds.
\<close>

theorem eni_absent_area_raises:
  "eni \<lparr>df = \<lparr>columns = [''seg'', ''q1''],
               rows = [row_of [(''seg'', Fin 1), (''q1'', Fin 4)]]\<rparr>,
         cfg = \<lparr>WEIGHT_COLUMN = None, NAN_VALUES = [],
                area_map = [(''A'', [''q1''])], MINIMUM_COUNT = 1, question_map = []\<rparr>,
         categories = [''seg''], variable_value_labels = [], question_groups = [], question_df = []\<rparr> ''B'' False
     = Inl TypeError
   \<and> eni (db\<lparr>cfg := (cfg db)\<lparr>area_map := []\<rparr>\<rparr>) area weights = Inl TypeError"
  by (simp add: eni_def)



section \<open>Properties of the percentage aggregator\<close>

lemma fold_add_Fin:
  "fold (\<lambda>x acc. fl_add acc x) (map Fin qs) (Fin a) = Fin (a + sum_list qs)"
  by (induction qs arbitrary: a) (simp_all add: add.assoc)

lemma fl_sum_Fin: "fl_sum (map Fin qs) = Fin (sum_list qs)"
  by (simp add: fl_sum_def fold_add_Fin)

lemma sum_cells_Some_Fin: "sum_cells (map (\<lambda>v. Some (Fin (q v))) vs) = Fin (sum_list (map q vs))"
proof -
  have "List.map_filter id (map (\<lambda>v. Some (Fin (q v))) vs) = map Fin (map q vs)"
    by (induction vs) simp_all
  then show ?thesis unfolding sum_cells_def by (simp only: fl_sum_Fin)
qed

lemma length_filter_disj:
  "\<forall>x \<in> set g. \<not> (P x \<and> Q x) \<Longrightarrow>
     length (filter P g) + length (filter Q g) = length (filter (\<lambda>x. P x \<or> Q x) g)"
  by (induction g) auto

lemma count_sum:
  "distinct vs \<Longrightarrow>
     sum_list (map (\<lambda>v. length (filter (\<lambda>r. f r = Some (Fin v)) g)) vs)
       = length (filter (\<lambda>r. \<exists>v \<in> set vs. f r = Some (Fin v)) g)"
proof (induction vs)
  case Nil
  then show ?case by simp
next
  case (Cons v vs)
  have "\<forall>r \<in> set g. \<not> (f r = Some (Fin v) \<and> (\<exists>v' \<in> set vs. f r = Some (Fin v')))"
    using Cons.prems by auto
  from length_filter_disj [OF this] Cons show ?case
    by simp
qed

lemma sum_list_divide:
  "sum_list (map (\<lambda>v. (of_nat (c v) :: rat) / n) vs) = of_nat (sum_list (map c vs)) / n"
  by (induction vs) (simp_all add: add_divide_distrib)

lemma percentage_sum_unweighted:
  assumes d: "distinct possible" and disj: "set codes \<inter> set possible = {}"
    and cells: "\<forall>r \<in> set g. r col = None
                  \<or> (\<exists>v. r col = Some (Fin v) \<and> (v \<in> set codes \<or> v \<in> set possible))"
    and pos: "0 < answered codes g col"
  shows "sum_cells (map (percentage_expr codes None g col) possible) = Fin 1"
proof -
  let ?n = "answered codes g col"
  let ?c = "\<lambda>v. length (filter (\<lambda>r. r col = Some (Fin v)) g)"
  have n0: "(of_nat ?n :: rat) \<noteq> 0" using pos by simp
  have "percentage_expr codes None g col v = Some (Fin (of_nat (?c v) / of_nat ?n))" for v
    using n0
    by (simp add: percentage_expr_def count_expr_def total_count_expr_def answered_def
        lift2_def fill_null_def fill_nan_def)
  then have pct: "percentage_expr codes None g col = (\<lambda>v. Some (Fin (of_nat (?c v) / of_nat ?n)))"
    by (rule ext)
  have "\<forall>r \<in> set g. (is_in codes (r col) = Some False)
          = (\<exists>v \<in> set possible. r col = Some (Fin v))"
    using cells disj by (auto simp: is_in_def)
  then have "filter (\<lambda>r. is_in codes (r col) = Some False) g
          = filter (\<lambda>r. \<exists>v \<in> set possible. r col = Some (Fin v)) g"
    by (simp cong: filter_cong)
  then have "sum_list (map ?c possible) = ?n"
    using count_sum [OF d, of "\<lambda>r. r col" g] by (simp add: answered_def)
  then have "sum_list (map (\<lambda>v. (of_nat (?c v) :: rat) / of_nat ?n) possible) = 1"
    using n0 by (simp add: sum_list_divide)
  then show ?thesis
    unfolding pct
    using sum_cells_Some_Fin [of "\<lambda>v. of_nat (?c v) / of_nat ?n" possible]
    by simp
qed

lemma fold_add_cells:
  "list_all (\<lambda>x. case x of None \<Rightarrow> True | Some (Fin q) \<Rightarrow> True | _ \<Rightarrow> False) xs \<Longrightarrow>
     fold (\<lambda>x acc. fl_add acc x) (List.map_filter id xs) (Fin a)
       = Fin (a + sum_list (map cell_val xs))"
proof (induction xs arbitrary: a)
  case Nil
  then show ?case by simp
next
  case (Cons x xs)
  then show ?case
    by (cases x) (auto simp: cell_val_def add.assoc split: fl.splits)
qed

lemma sum_cells_finite:
  "list_all (\<lambda>x. case x of None \<Rightarrow> True | Some (Fin q) \<Rightarrow> True | _ \<Rightarrow> False) xs \<Longrightarrow>
     sum_cells xs = Fin (sum_list (map cell_val xs))"
  using fold_add_cells [of xs 0] by (simp add: sum_cells_def fl_sum_def)

lemma sum_when:
  assumes "finite_cells g wc"
  shows "sum_cells (map (\<lambda>r. if P r then r wc else None) g)
           = Fin (sum_list (map (\<lambda>r. if P r then cell_val (r wc) else 0) g))"
proof -
  have a: "list_all (\<lambda>x. case x of None \<Rightarrow> True | Some (Fin q) \<Rightarrow> True | _ \<Rightarrow> False)
          (map (\<lambda>r. if P r then r wc else None) g)"
    using assms by (auto simp: finite_cells_def list_all_iff)
  have b: "map cell_val (map (\<lambda>r. if P r then r wc else None) g)
      = map (\<lambda>r. if P r then cell_val (r wc) else 0) g"
    by (induction g) (simp_all add: cell_val_def)
  have "sum_cells (map (\<lambda>r. if P r then r wc else None) g)
      = Fin (sum_list (map cell_val (map (\<lambda>r. if P r then r wc else None) g)))"
    by (rule sum_cells_finite [OF a])
  then show ?thesis by (simp only: b)
qed

lemma sum_if_disj:
  "\<forall>x \<in> set g. \<not> (P x \<and> Q x) \<Longrightarrow>
     sum_list (map (\<lambda>r. if P r then (f r :: rat) else 0) g)
       + sum_list (map (\<lambda>r. if Q r then f r else 0) g)
     = sum_list (map (\<lambda>r. if P r \<or> Q r then f r else 0) g)"
  by (induction g) auto

lemma weight_sum:
  "distinct vs \<Longrightarrow>
     sum_list (map (\<lambda>v. sum_list (map (\<lambda>r. if h r = Some (Fin v) then (f r :: rat) else 0) g)) vs)
       = sum_list (map (\<lambda>r. if (\<exists>v \<in> set vs. h r = Some (Fin v)) then f r else 0) g)"
proof (induction vs)
  case Nil
  then show ?case by simp
next
  case (Cons v vs)
  have "\<forall>r \<in> set g. \<not> (h r = Some (Fin v) \<and> (\<exists>v' \<in> set vs. h r = Some (Fin v')))"
    using Cons.prems by auto
  from sum_if_disj [OF this, of f] Cons show ?case
    by simp
qed

lemma sum_list_divide_rat:
  "sum_list (map (\<lambda>v. (c v :: rat) / n) vs) = sum_list (map c vs) / n"
  by (induction vs) (simp_all add: add_divide_distrib)

lemma percentage_sum_weighted:
  assumes d: "distinct possible" and disj: "set codes \<inter> set possible = {}"
    and cells: "\<forall>r \<in> set g. r col = None
                  \<or> (\<exists>v. r col = Some (Fin v) \<and> (v \<in> set codes \<or> v \<in> set possible))"
    and fin: "finite_cells g wc"
    and nz: "total_weighted_count_expr codes g wc col \<noteq> Some (Fin 0)"
  shows "sum_cells (map (percentage_expr codes (Some wc) g col) possible) = Fin 1"
proof -
  let ?T = "sum_list (map (\<lambda>r. if is_in codes (r col) = Some False then cell_val (r wc) else 0) g)"
  let ?W = "\<lambda>v. sum_list (map (\<lambda>r. if r col = Some (Fin v) then cell_val (r wc) else 0) g)"
  have tot: "total_weighted_count_expr codes g wc col = Some (Fin ?T)"
    by (simp add: total_weighted_count_expr_def sum_when [OF fin])
  then have T0: "?T \<noteq> 0" using nz by auto
  have w: "weighted_expr g wc col v = Some (Fin (?W v))" for v
    by (simp add: weighted_expr_def sum_when [OF fin])
  have "percentage_expr codes (Some wc) g col v = Some (Fin (?W v / ?T))" for v
    using T0 by (simp add: percentage_expr_def w tot lift2_def fill_null_def)
  then have pct: "percentage_expr codes (Some wc) g col = (\<lambda>v. Some (Fin (?W v / ?T)))"
    by (rule ext)
  have "\<forall>r \<in> set g. (is_in codes (r col) = Some False)
          = (\<exists>v \<in> set possible. r col = Some (Fin v))"
    using cells disj by (auto simp: is_in_def)
  then have meq: "map (\<lambda>r. if is_in codes (r col) = Some False then cell_val (r wc) else 0) g
      = map (\<lambda>r. if (\<exists>v \<in> set possible. r col = Some (Fin v)) then cell_val (r wc) else 0) g"
    by simp
  have "sum_list (map ?W possible) = ?T"
    unfolding meq by (rule weight_sum [OF d])
  then have "sum_list (map (\<lambda>v. ?W v / ?T) possible) = 1"
    using T0 by (simp add: sum_list_divide_rat)
  then show ?thesis
    unfolding pct
    using sum_cells_Some_Fin [of "\<lambda>v. ?W v / ?T" possible]
    by simp
qed

lemma missing_no_codes: "missing [] g col = 0"
  by (simp add: missing_def is_in_def split: option.splits fl.splits)

lemma nan_count_expr_missing:
  "nan_count_expr codes g col = Some (Fin (of_nat (missing codes g col)))"
  by (cases "codes = []") (simp_all add: nan_count_expr_def missing_def missing_no_codes [unfolded missing_def])

lemma total_count_expr_answered:
  "total_count_expr codes g col = Some (Fin (of_nat (answered codes g col)))"
  by (simp add: total_count_expr_def answered_def)

lemma nan_percentage_unweighted:
  assumes "0 < answered codes g col"
  shows "nan_percentage_expr codes None g col
           = Some (Fin (of_nat (missing codes g col)
                        / (of_nat (answered codes g col) + of_nat (missing codes g col))))"
proof -
  have "(of_nat (answered codes g col) + of_nat (missing codes g col) :: rat) \<noteq> 0"
    using assms by (metis of_nat_0_eq_iff of_nat_add add_is_0 less_numeral_extra(3))
  then show ?thesis
    by (simp add: nan_percentage_expr_def nan_count_expr_missing total_count_expr_answered
        lift2_def fill_null_def fill_nan_def)
qed

lemma sum_cells_append_one:
  "sum_cells (map (\<lambda>v. f v) vs) = Fin a \<Longrightarrow> sum_cells (map f vs @ [Some (Fin b)]) = Fin (a + b)"
  by (simp add: sum_cells_def fl_sum_def List.map_filter_def)

text \<open>
  Claim C8, as amended. For the rows \<open>g\<close> of a group, an answer column, the missing
  codes and a duplicate-free list of possible values that holds no missing code:
  when every cell of the column is null, a missing code or a possible value, the
  value-percentages alone sum to 1.0, without weights when the group has a non-missing
  answer, and with weights when the weights are finite and their sum over the
  non-missing answers is not zero. The missing-percentage is a further ratio over all
  answered rows: without weights it is \<open>m / (n + m)\<close> for \<open>n\<close> non-missing and \<open>m\<close>
  missing answers, and the value-percentages plus the missing-percentage sum to
  \<open>1 + m / (n + m)\<close>.
\<close>

theorem percentages_sum_to_one:
  assumes d: "distinct possible" and disj: "set codes \<inter> set possible = {}"
    and cells: "\<forall>r \<in> set g. r col = None
                  \<or> (\<exists>v. r col = Some (Fin v) \<and> (v \<in> set codes \<or> v \<in> set possible))"
    and pos: "0 < answered codes g col"
  shows "sum_cells (map (percentage_expr codes None g col) possible) = Fin 1
    \<and> sum_cells (map snd (column_percentages codes possible None g col))
        = Fin (1 + of_nat (missing codes g col)
                   / (of_nat (answered codes g col) + of_nat (missing codes g col)))
    \<and> (finite_cells g wc \<and> total_weighted_count_expr codes g wc col \<noteq> Some (Fin 0)
        \<longrightarrow> sum_cells (map (percentage_expr codes (Some wc) g col) possible) = Fin 1)"
proof -
  have u: "sum_cells (map (percentage_expr codes None g col) possible) = Fin 1"
    by (rule percentage_sum_unweighted [OF d disj cells pos])
  have "map snd (column_percentages codes possible None g col)
      = map (percentage_expr codes None g col) possible
        @ [Some (Fin (of_nat (missing codes g col)
                      / (of_nat (answered codes g col) + of_nat (missing codes g col))))]"
    by (simp add: column_percentages_def comp_def nan_percentage_unweighted [OF pos])
  then have t: "sum_cells (map snd (column_percentages codes possible None g col))
        = Fin (1 + of_nat (missing codes g col)
                   / (of_nat (answered codes g col) + of_nat (missing codes g col)))"
    using sum_cells_append_one [OF u] by simp
  have w: "finite_cells g wc \<and> total_weighted_count_expr codes g wc col \<noteq> Some (Fin 0)
        \<longrightarrow> sum_cells (map (percentage_expr codes (Some wc) g col) possible) = Fin 1"
    using percentage_sum_weighted [OF d disj cells] by blast
  show ?thesis using u t w by blast
qed

text \<open>
  Three respondents answer 1, 2 and the missing code 99, with the weights 2, 3 and 1:
  the value-percentages sum to 1 with and without weights, and with the
  missing-percentage 1/3 the unweighted total is 4/3.
\<close>

theorem percentages_sum_to_one_witness:
  "sum_cells (map (percentage_expr [99] None
       [row_of [(''q1'', Fin 1), (''w'', Fin 2)], row_of [(''q1'', Fin 2), (''w'', Fin 3)],
        row_of [(''q1'', Fin 99), (''w'', Fin 1)]] ''q1'') [1, 2]) = Fin 1
   \<and> sum_cells (map snd (column_percentages [99] [1, 2] None
       [row_of [(''q1'', Fin 1), (''w'', Fin 2)], row_of [(''q1'', Fin 2), (''w'', Fin 3)],
        row_of [(''q1'', Fin 99), (''w'', Fin 1)]] ''q1'')) = Fin (4 / 3)
   \<and> sum_cells (map (percentage_expr [99] (Some ''w'')
       [row_of [(''q1'', Fin 1), (''w'', Fin 2)], row_of [(''q1'', Fin 2), (''w'', Fin 3)],
        row_of [(''q1'', Fin 99), (''w'', Fin 1)]] ''q1'') [1, 2]) = Fin 1"
proof -
  let ?g = "[row_of [(''q1'', Fin 1), (''w'', Fin 2)], row_of [(''q1'', Fin 2), (''w'', Fin 3)],
             row_of [(''q1'', Fin 99), (''w'', Fin 1)]]"
  have a: "answered [99] ?g ''q1'' = 2" and m: "missing [99] ?g ''q1'' = 1"
    by code_simp+
  have f: "finite_cells ?g ''w''"
    by code_simp
  have nz: "total_weighted_count_expr [99] ?g ''w'' ''q1'' \<noteq> Some (Fin 0)"
    by code_simp
  have d: "distinct [1, 2 :: rat]" and disj: "set [99 :: rat] \<inter> set [1, 2] = {}"
    by simp_all
  have cells: "\<forall>r \<in> set ?g. r ''q1'' = None
       \<or> (\<exists>v. r ''q1'' = Some (Fin v) \<and> (v \<in> set [99] \<or> v \<in> set [1, 2]))"
    by (simp add: row_of_def)
  have pos: "0 < answered [99] ?g ''q1''"
    by (simp add: a)
  from percentages_sum_to_one [OF d disj cells pos, of "''w''"] f nz
  show ?thesis by (simp add: a m)
qed

text \<open>
  Claim C8 as stated fails whenever a category has a missing answer. One column, the
  possible value 1 and the missing code 99; one respondent of the category answers 1
  and one answers 99: the value-percentage is 1/1 and the missing-percentage 1/2, so
  they sum to 3/2.
\<close>

theorem percentages_sum_counterexample:
  "percentages id
     \<lparr>df = \<lparr>columns = [''seg'', ''q1''],
            rows = [row_of [(''seg'', Fin 1), (''q1'', Fin 1)],
                    row_of [(''seg'', Fin 1), (''q1'', Fin 99)]]\<rparr>,
      cfg = \<lparr>WEIGHT_COLUMN = None, NAN_VALUES = [(99, None)], area_map = [],
             MINIMUM_COUNT = 1, question_map = []\<rparr>,
      categories = [''seg''], variable_value_labels = [],
      question_groups = [\<lparr>base_question = ''q1'', question_type = ''single_choice'',
                          qcolumns = [''q1''], value_labels_info = [1, 99]\<rparr>], question_df = []\<rparr> False
   = Inr ([(''seg'', [(Count ''q1'' 1, Some (Fin 1)), (NanCount ''q1'', Some (Fin 1)),
                      (TotalCount ''q1'', Some (Fin 1)),
                      (Percentage ''q1'' 1, Some (Fin 1)),
                      (NanPercentage ''q1'', Some (Fin (1 / 2)))])], None)
   \<and> sum_cells [Some (Fin 1), Some (Fin (1 / 2))] = Fin (3 / 2)"
  by code_simp

text \<open>
  Claim C2 (the statistics of a category are computed over the rows whose flag is
  true) does not hold of the code: the frame is grouped by the value of the flag, the
  aggregated row of every non-null flag value is labelled with the name of the
  category, and the pivot keeps the first of them. In the first dataset no respondent
  belongs to the category, yet the category reports the two answers of the rows whose
  flag is 0. In the second the group of flag 0 comes first, and the category reports
  the count of its answer and none of the answer of the member.
\<close>

theorem percentages_reports_false_flag_rows:
  "(case percentages id
       \<lparr>df = \<lparr>columns = [''seg'', ''q1''],
              rows = [row_of [(''seg'', Fin 0), (''q1'', Fin 1)],
                      row_of [(''seg'', Fin 0), (''q1'', Fin 1)]]\<rparr>,
        cfg = \<lparr>WEIGHT_COLUMN = None, NAN_VALUES = [], area_map = [],
               MINIMUM_COUNT = 1, question_map = []\<rparr>,
        categories = [''seg''], variable_value_labels = [],
        question_groups = [\<lparr>base_question = ''q1'', question_type = ''single_choice'',
                            qcolumns = [''q1''], value_labels_info = [1, 2]\<rparr>], question_df = []\<rparr> False of
      Inl e \<Rightarrow> []
    | Inr (results, ranked) \<Rightarrow>
        map (reported results ''seg'') [Count ''q1'' 1, TotalCount ''q1'', Percentage ''q1'' 1])
     = [Some (Fin 2), Some (Fin 2), Some (Fin 1)]
   \<and> (case percentages id
       \<lparr>df = \<lparr>columns = [''seg'', ''q1''],
              rows = [row_of [(''seg'', Fin 0), (''q1'', Fin 1)],
                      row_of [(''seg'', Fin 1), (''q1'', Fin 2)]]\<rparr>,
        cfg = \<lparr>WEIGHT_COLUMN = None, NAN_VALUES = [], area_map = [],
               MINIMUM_COUNT = 1, question_map = []\<rparr>,
        categories = [''seg''], variable_value_labels = [],
        question_groups = [\<lparr>base_question = ''q1'', question_type = ''single_choice'',
                            qcolumns = [''q1''], value_labels_info = [1, 2]\<rparr>], question_df = []\<rparr> False of
      Inl e \<Rightarrow> []
    | Inr (results, ranked) \<Rightarrow>
        map (reported results ''seg'') [Count ''q1'' 1, Count ''q1'' 2, TotalCount ''q1''])
     = [Some (Fin 1), Some (Fin 0), Some (Fin 1)]"
  by code_simp

text \<open>
  Claim C4 (the missing-percentage divides the missing count by the denominator of
  the same path plus the missing count) holds without weights and does not hold with
  weights: there the weighted missing sum is divided by the unweighted count
  \<^verbatim>\<open>{col}_total_count\<close> plus the weighted missing sum. Two respondents of weight 2, one
  answers 1 and one the missing code 99: the weighted denominator is 2 and the
  weighted missing sum is 2, the ratio of the claim is 2 / (2 + 2), and the code
  reports 2 / (1 + 2).
\<close>

theorem nan_percentage_weighted_mixes_count:
  "total_weighted_count_expr [99]
     [row_of [(''q1'', Fin 1), (''w'', Fin 2)], row_of [(''q1'', Fin 99), (''w'', Fin 2)]]
     ''w'' ''q1'' = Some (Fin 2)
   \<and> nan_weighted_expr [99]
     [row_of [(''q1'', Fin 1), (''w'', Fin 2)], row_of [(''q1'', Fin 99), (''w'', Fin 2)]]
     ''w'' ''q1'' = Some (Fin 2)
   \<and> total_count_expr [99]
     [row_of [(''q1'', Fin 1), (''w'', Fin 2)], row_of [(''q1'', Fin 99), (''w'', Fin 2)]]
     ''q1'' = Some (Fin 1)
   \<and> nan_percentage_expr [99] (Some ''w'')
     [row_of [(''q1'', Fin 1), (''w'', Fin 2)], row_of [(''q1'', Fin 99), (''w'', Fin 2)]]
     ''q1'' = Some (Fin (2 / 3))
   \<and> nan_percentage_expr [99] None
     [row_of [(''q1'', Fin 1), (''w'', Fin 2)], row_of [(''q1'', Fin 99), (''w'', Fin 2)]]
     ''q1'' = Some (Fin (1 / 2))"
  by code_simp

section \<open>Properties of the ranking aggregator\<close>


lemma collect_map_Inr:
  "\<forall>x \<in> set xs. f x = Inr (g x) \<Longrightarrow> collect (map f xs) = Inr (map g xs)"
  by (induction xs) simp_all




















section \<open>The index aggregator: suppression below the minimum count\<close>

text \<open>
  Claim C6. The claim: the individual index of a question is absent exactly when the
  number of non-missing responses plus the number of missing codes of the question in
  the category is below \<^verbatim>\<open>MINIMUM_COUNT\<close>, and is the mean otherwise. The code drops
  only the NaN values of the melted frame and then fills every null with 0 before it
  counts and averages, so a null cell is counted as a response of value 0:

  \<^item> Missing code 99 replaced by NaN, one category with the answers 5, null, null (no cell) and
    \<^verbatim>\<open>MINIMUM_COUNT = 2\<close>: one non-missing response and no missing code, yet the index
    is reported, as \<open>5 / 3\<close>; the area index of the same rows is 5.
  \<^item> Missing code 99 replaced by null, answers 5 and 99 and \<^verbatim>\<open>MINIMUM_COUNT = 3\<close>: one
    non-missing response and one missing code, yet the index is reported, as \<open>5 / 2\<close>:
    the missing code is counted once as a row and once in \<^verbatim>\<open>Nan_Count\<close>.
  \<^item> Without null cells the code does what the claim says: the answers 2, 3, 4, 5 give
    \<open>7 / 2\<close> with \<^verbatim>\<open>MINIMUM_COUNT = 2\<close> and an absent index with \<^verbatim>\<open>MINIMUM_COUNT = 5\<close>.
\<close>

theorem index_counts_null_cells:
  "index
     \<lparr>df = \<lparr>columns = [''seg'', ''q1''],
             rows = [row_of [(''seg'', Fin 1), (''q1'', Fin 5)],
                     row_of [(''seg'', Fin 1)],
                     row_of [(''seg'', Fin 1)]]\<rparr>,
      cfg = \<lparr>WEIGHT_COLUMN = None, NAN_VALUES = [(99, Some NaN)],
             area_map = [(''A'', [''q1''])], MINIMUM_COUNT = 2, question_map = []\<rparr>,
      categories = [''seg''],
      variable_value_labels = [(''q1'', [1, 2, 3, 4, 5, 99])],
      question_groups = [], question_df = []\<rparr>
     False None
   = Inr (IndexTable
       [\<lparr>ix_category = ''seg'', ix_area = ''A'', ix_question = ''q1'',
         Individual_Index = Some (Fin (5 / 3)), Area_Index = Some (Fin 5)\<rparr>])
   \<and>
   index
     \<lparr>df = \<lparr>columns = [''seg'', ''q1''],
             rows = [row_of [(''seg'', Fin 1), (''q1'', Fin 5)],
                     row_of [(''seg'', Fin 1), (''q1'', Fin 99)]]\<rparr>,
      cfg = \<lparr>WEIGHT_COLUMN = None, NAN_VALUES = [(99, None)],
             area_map = [(''A'', [''q1''])], MINIMUM_COUNT = 3, question_map = []\<rparr>,
      categories = [''seg''],
      variable_value_labels = [(''q1'', [1, 2, 3, 4, 5, 99])],
      question_groups = [], question_df = []\<rparr>
     False None
   = Inr (IndexTable
       [\<lparr>ix_category = ''seg'', ix_area = ''A'', ix_question = ''q1'',
         Individual_Index = Some (Fin (5 / 2)), Area_Index = Some (Fin 5)\<rparr>])
   \<and>
   index
     \<lparr>df = \<lparr>columns = [''seg'', ''q1''],
             rows = [row_of [(''seg'', Fin 1), (''q1'', Fin 2)],
                     row_of [(''seg'', Fin 1), (''q1'', Fin 3)],
                     row_of [(''seg'', Fin 1), (''q1'', Fin 4)],
                     row_of [(''seg'', Fin 1), (''q1'', Fin 5)]]\<rparr>,
      cfg = \<lparr>WEIGHT_COLUMN = None, NAN_VALUES = [(99, Some NaN)],
             area_map = [(''A'', [''q1''])], MINIMUM_COUNT = 2, question_map = []\<rparr>,
      categories = [''seg''],
      variable_value_labels = [(''q1'', [1, 2, 3, 4, 5, 99])],
      question_groups = [], question_df = []\<rparr>
     False None
   = Inr (IndexTable
       [\<lparr>ix_category = ''seg'', ix_area = ''A'', ix_question = ''q1'',
         Individual_Index = Some (Fin (7 / 2)), Area_Index = Some (Fin (7 / 2))\<rparr>])
   \<and>
   index
     \<lparr>df = \<lparr>columns = [''seg'', ''q1''],
             rows = [row_of [(''seg'', Fin 1), (''q1'', Fin 2)],
                     row_of [(''seg'', Fin 1), (''q1'', Fin 3)],
                     row_of [(''seg'', Fin 1), (''q1'', Fin 4)],
                     row_of [(''seg'', Fin 1), (''q1'', Fin 5)]]\<rparr>,
      cfg = \<lparr>WEIGHT_COLUMN = None, NAN_VALUES = [(99, Some NaN)],
             area_map = [(''A'', [''q1''])], MINIMUM_COUNT = 5, question_map = []\<rparr>,
      categories = [''seg''],
      variable_value_labels = [(''q1'', [1, 2, 3, 4, 5, 99])],
      question_groups = [], question_df = []\<rparr>
     False None
   = Inr (IndexTable
       [\<lparr>ix_category = ''seg'', ix_area = ''A'', ix_question = ''q1'',
         Individual_Index = None, Area_Index = Some (Fin (7 / 2))\<rparr>])"
  by code_simp

end
